theory Spec2Isabelle
  imports Main "HOL-Library.Product_Lexorder" "HOL-Library.List_Lexorder" "HOL-Library.Char_ord"
begin

section \<open>Puppy Station: the SQLite store (db.js) and the server built on it\<close>

text \<open>
  The store of \<^verbatim>\<open>src/db.js\<close> is a SQLite database reached through better-sqlite3.
  Each SQL statement of the module is modelled as a function on the contents of the
  database; each exported JavaScript function is the composition of its statements, in
  the order of the source. A table is the list of its rows in the order of insertion.

  Conventions.
  \<^item> A timestamp (\<^verbatim>\<open>CURRENT_TIMESTAMP\<close>, resolution one second) is the number of the
    second, a natural number. The reading of the clock is the first argument \<open>now\<close> of
    every operation that writes; all statements of one call read the same second.
  \<^item> JavaScript strings are \<open>string\<close>; text outside ASCII is given by its UTF-8 bytes,
    which is how SQLite holds it.
    Text arguments are strings: the \<^verbatim>\<open>null\<close> and \<^verbatim>\<open>undefined\<close> of JavaScript are
    outside the model, except where a column or a request field is optional.
  \<^item> A row id is an \<open>int\<close> (SQLite's 64-bit range is never approached).
  \<^item> A thrown exception is the left injection of the result; the state of the module
    after the call is returned beside it, since a statement that has run stays run.
\<close>

subsection \<open>JavaScript numbers\<close>

text \<open>
  A JavaScript number is a double. An integer that goes through one (a row id that is
  handed to \<^verbatim>\<open>JSON.stringify\<close>, a text that SQLite reads as a number) is rounded to the
  nearest double, ties to the even mantissa. \<open>double_integer a b\<close> is the integer that the
  double nearest to the fraction \<open>a / b\<close> is, \<open>None\<close> when that double is no integer or is
  infinite.
\<close>

fun bitlen :: "nat \<Rightarrow> nat" where
  "bitlen n = (if n = 0 then 0 else Suc (bitlen (n div 2)))"

definition scaled :: "nat \<Rightarrow> nat \<Rightarrow> int \<Rightarrow> nat \<times> nat" where
  "scaled a b e = (if 0 \<le> e then (a, b * 2 ^ nat e) else (a * 2 ^ nat (- e), b))"

definition double_integer :: "nat \<Rightarrow> nat \<Rightarrow> nat option" where
  "double_integer a b =
     (if a * 2 ^ 1075 \<le> b then Some 0
      else
        (let e0 = int (bitlen a) - int (bitlen b) - 53;
             e = (if 2 ^ 53 \<le> fst (scaled a b e0) div snd (scaled a b e0) then e0 + 1 else e0);
             num = fst (scaled a b e);
             den = snd (scaled a b e);
             q = num div den;
             r = num mod den;
             m = (if den < 2 * r \<or> (2 * r = den \<and> odd q) then q + 1 else q)
         in if 0 \<le> e
            then (if m * 2 ^ nat e < 2 ^ 1024 then Some (m * 2 ^ nat e) else None)
            else (if 2 ^ nat (- e) dvd m then Some (m div 2 ^ nat (- e)) else None)))"

fun digit_char :: "nat \<Rightarrow> char" where
  "digit_char n = char_of (48 + n)"

fun string_of_nat :: "nat \<Rightarrow> string" where
  "string_of_nat n =
     (if n < 10 then [digit_char n] else string_of_nat (n div 10) @ [digit_char (n mod 10)])"

definition string_of_int :: "int \<Rightarrow> string" where
  "string_of_int i = (if i < 0 then CHR ''-'' # string_of_nat (nat (- i)) else string_of_nat (nat i))"

text \<open>
  \<^verbatim>\<open>Number.prototype.toString\<close> on an integer double \<open>v\<close>: the digits of the shortest
  decimal that no other double is nearer to, the nearest to \<open>v\<close> among those; the digits
  are followed by zeros up to 21 digits and by an exponent beyond. Below \<open>2 ^ 53\<close> every
  integer is a double of its own and the digits are its decimal digits.
  \<open>in_interval v c\<close>: the integer \<open>c\<close> rounds to the double \<open>v\<close>.
\<close>

definition in_interval :: "nat \<Rightarrow> nat \<Rightarrow> bool" where
  "in_interval v c =
     (let e = bitlen v - 53;
          m = v div 2 ^ e;
          up = 2 ^ e;
          down = (if m = 2 ^ 52 then 2 ^ (e - 1) else 2 ^ e)
      in if even m then 2 * v \<le> 2 * c + down \<and> 2 * c \<le> 2 * v + up
         else 2 * v < 2 * c + down \<and> 2 * c < 2 * v + up)"

fun shortest :: "nat \<Rightarrow> nat \<Rightarrow> nat \<times> nat" where
  "shortest v 0 = (v, 0)"
| "shortest v (Suc j) =
     (let p = 10 ^ Suc j;
          a = (v div p) * p;
          b = a + p;
          oka = (0 < a \<and> in_interval v a);
          okb = in_interval v b
      in if oka \<and> okb
         then (if v - a < b - v then (a div p, Suc j)
               else if b - v < v - a then (b div p, Suc j)
               else if even (a div p) then (a div p, Suc j) else (b div p, Suc j))
         else if oka then (a div p, Suc j)
         else if okb then (b div p, Suc j)
         else shortest v j)"

definition Number_toString :: "nat \<Rightarrow> string" where
  "Number_toString v =
     (if v < 2 ^ 53 then string_of_nat v
      else
        (let sj = shortest v (length (string_of_nat v));
             ds = string_of_nat (fst sj);
             n = length ds + snd sj
         in if n \<le> 21 then ds @ replicate (snd sj) (CHR ''0'')
            else if length ds = 1 then ds @ ''e+'' @ string_of_nat (n - 1)
            else take 1 ds @ ''.'' @ drop 1 ds @ ''e+'' @ string_of_nat (n - 1)))"

subsection \<open>JSON values and \<^verbatim>\<open>JSON.stringify\<close>\<close>

text \<open>
  The values that the code serializes: \<open>JNum i\<close> is the number nearest to the integer
  \<open>i\<close>. A string is quoted with the escapes of \<^verbatim>\<open>JSON.stringify\<close>: the quote, the
  backslash, and the control characters below U+0020, five of them by a letter and the
  others by four hexadecimal digits. An infinite number is serialized as \<^verbatim>\<open>null\<close>.
\<close>

datatype json =
    JNull
  | JBool bool
  | JNum int
  | JStr string
  | JArr "json list"
  | JObj "(string \<times> json) list"

definition hex_char :: "nat \<Rightarrow> char" where
  "hex_char n = (if n < 10 then char_of (48 + n) else char_of (87 + n))"

definition escape_char :: "char \<Rightarrow> string" where
  "escape_char c =
     (if c = CHR 0x22 then [CHR 0x5C, CHR 0x22]
      else if c = CHR 0x5C then [CHR 0x5C, CHR 0x5C]
      else if c = CHR 0x08 then [CHR 0x5C, CHR ''b'']
      else if c = CHR 0x09 then [CHR 0x5C, CHR ''t'']
      else if c = CHR 0x0A then [CHR 0x5C, CHR ''n'']
      else if c = CHR 0x0C then [CHR 0x5C, CHR ''f'']
      else if c = CHR 0x0D then [CHR 0x5C, CHR ''r'']
      else if (of_char c :: nat) < 32
           then [CHR 0x5C, CHR ''u'', CHR ''0'', CHR ''0'',
                 hex_char ((of_char c :: nat) div 16), hex_char ((of_char c :: nat) mod 16)]
      else [c])"

definition quote :: "string \<Rightarrow> string" where
  "quote s = CHR 0x22 # concat (map escape_char s) @ [CHR 0x22]"

fun join :: "string \<Rightarrow> string list \<Rightarrow> string" where
  "join sep [] = []"
| "join sep [x] = x"
| "join sep (x # y # ys) = x @ sep @ join sep (y # ys)"

definition stringify_number :: "int \<Rightarrow> string" where
  "stringify_number i =
     (case double_integer (nat \<bar>i\<bar>) 1 of
        None \<Rightarrow> ''null''
      | Some v \<Rightarrow> (if i < 0 then CHR ''-'' # Number_toString v else Number_toString v))"

fun JSON_stringify :: "json \<Rightarrow> string" where
  "JSON_stringify JNull = ''null''"
| "JSON_stringify (JBool b) = (if b then ''true'' else ''false'')"
| "JSON_stringify (JNum i) = stringify_number i"
| "JSON_stringify (JStr s) = quote s"
| "JSON_stringify (JArr vs) = ''['' @ join '','' (map JSON_stringify vs) @ '']''"
| "JSON_stringify (JObj kvs) =
     ''{'' @ join '','' (map (\<lambda>kv. quote (fst kv) @ '':'' @ JSON_stringify (snd kv)) kvs) @ ''}''"

subsection \<open>Texts\<close>

text \<open>
  \<^verbatim>\<open>s.substring(0, n)\<close> counts the UTF-16 units of a string: one for a character of up
  to three bytes of UTF-8, two for a character of four bytes. Where the cut falls inside
  a character of two units the half that is left is unpaired, and it reaches SQLite as
  the replacement character U+FFFD.
\<close>

fun substring :: "nat \<Rightarrow> string \<Rightarrow> string" where
  "substring n [] = []"
| "substring n (c # cs) =
     (if n = 0 then []
      else if (0xF0::nat) \<le> of_char c
      then (if 2 \<le> n then c # take 3 cs @ substring (n - 2) (drop 3 cs)
            else [CHR 0xEF, CHR 0xBF, CHR 0xBD])
      else if (0xE0::nat) \<le> of_char c then c # take 2 cs @ substring (n - 1) (drop 2 cs)
      else if (0xC0::nat) \<le> of_char c then c # take 1 cs @ substring (n - 1) (drop 1 cs)
      else c # substring (n - 1) cs)"

text \<open>
  The text of \<^verbatim>\<open>CURRENT_TIMESTAMP\<close> for a second counted from 1970:
  \<^verbatim>\<open>YYYY-MM-DD HH:MM:SS\<close>, in UTC.
\<close>

definition pad2 :: "nat \<Rightarrow> string" where
  "pad2 n = (if n < 10 then CHR ''0'' # string_of_nat n else string_of_nat n)"

definition pad4 :: "nat \<Rightarrow> string" where
  "pad4 n = replicate (4 - length (string_of_nat n)) (CHR ''0'') @ string_of_nat n"

definition datetime_text :: "nat \<Rightarrow> string" where
  "datetime_text t =
     (let days = t div 86400;
          sod = t mod 86400;
          z = days + 719468;
          era = z div 146097;
          doe = z mod 146097;
          yoe = ((doe + doe div 36524) - (doe div 1460 + doe div 146096)) div 365;
          doy = (doe + yoe div 100) - (365 * yoe + yoe div 4);
          mp = (5 * doy + 2) div 153;
          d = doy + 1 - (153 * mp + 2) div 5;
          m = (if mp < 10 then mp + 3 else mp - 9);
          y = yoe + era * 400 + (if m \<le> 2 then 1 else 0)
      in pad4 y @ ''-'' @ pad2 m @ ''-'' @ pad2 d @ '' '' @
         pad2 (sod div 3600) @ '':'' @ pad2 (sod mod 3600 div 60) @ '':'' @ pad2 (sod mod 60))"

text \<open>
  A text that SQLite compares with an integer key is read as a number first: blanks,
  a sign, digits with an optional point, an optional exponent, blanks, and nothing else.
  Digits alone give their integer when it fits 64 bits. With a point or an exponent the
  text gives a double, and the double gives the integer it is equal to, when there is one
  below \<open>2 ^ 63\<close> in size. Any other text is equal to no key. (SQLite reads about 19
  significant digits; a longer text is taken here by its exact value.)
\<close>

definition is_space :: "char \<Rightarrow> bool" where
  "is_space c = (c = CHR 0x20 \<or> (9 \<le> (of_char c :: nat) \<and> (of_char c :: nat) \<le> 13))"

definition is_digit :: "char \<Rightarrow> bool" where
  "is_digit c = (48 \<le> (of_char c :: nat) \<and> (of_char c :: nat) \<le> 57)"

definition digits_value :: "string \<Rightarrow> nat" where
  "digits_value ds = foldl (\<lambda>a c. 10 * a + ((of_char c :: nat) - 48)) 0 ds"

definition is_minus :: "string \<Rightarrow> bool" where
  "is_minus z = (take 1 z = ''-'')"

definition after_sign :: "string \<Rightarrow> string" where
  "after_sign z = (if take 1 z = ''-'' \<or> take 1 z = ''+'' then drop 1 z else z)"

definition rowid_of_text :: "string \<Rightarrow> int option" where
  "rowid_of_text z =
     (let z1 = dropWhile is_space z;
          neg = is_minus z1;
          z2 = after_sign z1;
          ip = takeWhile is_digit z2;
          z3 = dropWhile is_digit z2;
          has_dot = (take 1 z3 = ''.'');
          fp = (if has_dot then takeWhile is_digit (drop 1 z3) else []);
          z4 = (if has_dot then dropWhile is_digit (drop 1 z3) else z3);
          has_e = (take 1 z4 = ''e'' \<or> take 1 z4 = ''E'');
          eneg = (has_e \<and> is_minus (drop 1 z4));
          ep = (if has_e then takeWhile is_digit (after_sign (drop 1 z4)) else []);
          z5 = (if has_e then dropWhile is_digit (after_sign (drop 1 z4)) else z4);
          z6 = dropWhile is_space z5
      in if z6 \<noteq> [] \<or> ip @ fp = [] \<or> (has_e \<and> ep = []) then None
         else if \<not> has_dot \<and> \<not> has_e
         then (let v = (if neg then - int (digits_value ip) else int (digits_value ip))
               in if - (2 ^ 63) \<le> v \<and> v < 2 ^ 63 then Some v else None)
         else
           (let s = digits_value (ip @ fp);
                x = (if eneg then - int (digits_value ep) else int (digits_value ep))
                      - int (length fp)
            in case (if 0 \<le> x then double_integer (s * 10 ^ nat x) 1
                     else double_integer s (10 ^ nat (- x))) of
                 None \<Rightarrow> None
               | Some r \<Rightarrow> if r < 2 ^ 63 then Some (if neg then - int r else int r) else None))"

subsection \<open>The tables\<close>

text \<open>
  The columns of the three tables created by \<^verbatim>\<open>initDb\<close>. The columns of a review that
  \<^verbatim>\<open>getPendingReviews\<close> selects form the record \<open>review_cols\<close>; a stored review adds
  \<^verbatim>\<open>resolved_at\<close>, a row of the pending view adds the two columns joined from the agent.
\<close>

record agent =
  a_id :: string
  a_name :: string
  a_emoji :: string
  a_role :: string
  a_model :: string
  a_status :: string
  a_current_task :: "string option"
  a_updated_at :: nat

record activity =
  act_id :: int
  act_agent_id :: string
  act_type :: string
  act_description :: string
  act_metadata_json :: string
  act_timestamp :: nat


record review_cols =
  r_id :: int
  r_agent_id :: string
  r_question :: string
  r_priority :: string
  r_status :: string
  r_created_at :: nat

record review = review_cols +
  r_resolved_at :: "nat option"

record review_row = review_cols +
  r_agent_name :: string
  r_agent_emoji :: string

text \<open>
  The contents of the database file, with the \<^verbatim>\<open>sqlite_sequence\<close> entries that
  \<^verbatim>\<open>AUTOINCREMENT\<close> keeps for the two tables with integer keys, and the
  \<^verbatim>\<open>foreign_keys\<close> setting of the connection. The module never sets that pragma, so it
  has the value the driver opens a connection with; better-sqlite3 is built with
  \<^verbatim>\<open>SQLITE_DEFAULT_FOREIGN_KEYS=1\<close>, see \<open>new_Database\<close> below.
\<close>

record database =
  agents :: "agent list"
  activities :: "activity list"
  reviews :: "review list"
  seq_activities :: int
  seq_reviews :: int
  foreign_keys :: bool

datatype error =
    Error string
  | SqliteError string string

fun err_message :: "error \<Rightarrow> string" where
  "err_message (Error m) = m"
| "err_message (SqliteError code m) = m"

definition not_initialized :: error where
  "not_initialized = Error ''Database not initialized. Call initDb() first.''"

definition foreign_key_failed :: error where
  "foreign_key_failed = SqliteError ''SQLITE_CONSTRAINT_FOREIGNKEY'' ''FOREIGN KEY constraint failed''"

definition primary_key_failed :: error where
  "primary_key_failed = SqliteError ''SQLITE_CONSTRAINT_PRIMARYKEY'' ''UNIQUE constraint failed: agents.id''"

subsection \<open>The SQL statements\<close>

text \<open>
  \<^verbatim>\<open>AUTOINCREMENT\<close>: the new row id is one more than the largest id the table ever
  held, which is the larger of the recorded sequence value and the ids present.
\<close>

definition next_rowid :: "int \<Rightarrow> int list \<Rightarrow> int" where
  "next_rowid seq ids = fold max ids (max seq 0) + 1"

definition agent_exists :: "string \<Rightarrow> database \<Rightarrow> bool" where
  "agent_exists agentId d = (agentId \<in> set (map a_id (agents d)))"

text \<open>
  A foreign key is checked when the connection enforces foreign keys; a statement that
  violates it fails as a whole and leaves the database as it was.
\<close>

definition fk_violation :: "string \<Rightarrow> database \<Rightarrow> bool" where
  "fk_violation agentId d = (foreign_keys d \<and> \<not> agent_exists agentId d)"

text \<open>\<^verbatim>\<open>INSERT INTO agents (id, name, emoji, role, model, status, current_task) VALUES (?, ?, ?, ?, ?, ?, ?)\<close>\<close>

definition INSERT_agent ::
  "nat \<Rightarrow> string \<Rightarrow> string \<Rightarrow> string \<Rightarrow> string \<Rightarrow> string \<Rightarrow> string \<Rightarrow> string \<Rightarrow> database
     \<Rightarrow> error + database" where
  "INSERT_agent now ident nm em rl mdl st task d =
     (if agent_exists ident d then Inl primary_key_failed
      else Inr (d\<lparr>agents := agents d @
        [\<lparr>a_id = ident, a_name = nm, a_emoji = em, a_role = rl, a_model = mdl, a_status = st,
          a_current_task = Some task, a_updated_at = now\<rparr>]\<rparr>))"

text \<open>\<^verbatim>\<open>INSERT INTO activities (agent_id, type, description, metadata_json) VALUES (?, ?, ?, ?)\<close>;
  the result is \<^verbatim>\<open>lastInsertRowid\<close>.\<close>

definition INSERT_activity ::
  "nat \<Rightarrow> string \<Rightarrow> string \<Rightarrow> string \<Rightarrow> string \<Rightarrow> database \<Rightarrow> error + (int \<times> database)" where
  "INSERT_activity now agentId ty description metadataJson d =
     (if fk_violation agentId d then Inl foreign_key_failed
      else
        (let rowid = next_rowid (seq_activities d) (map act_id (activities d))
         in Inr (rowid,
              d\<lparr>activities := activities d @
                  [\<lparr>act_id = rowid, act_agent_id = agentId, act_type = ty,
                    act_description = description, act_metadata_json = metadataJson,
                    act_timestamp = now\<rparr>],
                seq_activities := rowid\<rparr>)))"

text \<open>\<^verbatim>\<open>INSERT INTO reviews (agent_id, question, priority, status) VALUES (?, ?, ?, ?)\<close>\<close>

definition INSERT_review ::
  "nat \<Rightarrow> string \<Rightarrow> string \<Rightarrow> string \<Rightarrow> string \<Rightarrow> database \<Rightarrow> error + (int \<times> database)" where
  "INSERT_review now agentId question priority st d =
     (if fk_violation agentId d then Inl foreign_key_failed
      else
        (let rowid = next_rowid (seq_reviews d) (map r_id (reviews d))
         in Inr (rowid,
              d\<lparr>reviews := reviews d @
                  [\<lparr>r_id = rowid, r_agent_id = agentId, r_question = question,
                    r_priority = priority, r_status = st, r_created_at = now,
                    r_resolved_at = None\<rparr>],
                seq_reviews := rowid\<rparr>)))"

text \<open>
  An \<^verbatim>\<open>UPDATE\<close> returns, as \<^verbatim>\<open>changes\<close>, the number of rows its \<^verbatim>\<open>WHERE\<close> clause
  matched, whether or not their values differ from the new ones.
\<close>

text \<open>\<^verbatim>\<open>UPDATE agents SET updated_at = CURRENT_TIMESTAMP WHERE id = ?\<close>\<close>

definition UPDATE_agent_updated_at :: "nat \<Rightarrow> string \<Rightarrow> database \<Rightarrow> nat \<times> database" where
  "UPDATE_agent_updated_at now agentId d =
     (length (filter (\<lambda>ag. a_id ag = agentId) (agents d)),
      d\<lparr>agents := map (\<lambda>ag. if a_id ag = agentId then ag\<lparr>a_updated_at := now\<rparr> else ag) (agents d)\<rparr>)"

text \<open>\<^verbatim>\<open>UPDATE agents SET current_task = ?, status = 'active', updated_at = CURRENT_TIMESTAMP WHERE id = ?\<close>\<close>

definition UPDATE_agent_task :: "nat \<Rightarrow> string \<Rightarrow> string \<Rightarrow> database \<Rightarrow> nat \<times> database" where
  "UPDATE_agent_task now task agentId d =
     (length (filter (\<lambda>ag. a_id ag = agentId) (agents d)),
      d\<lparr>agents := map (\<lambda>ag. if a_id ag = agentId
                              then ag\<lparr>a_current_task := Some task, a_status := ''active'',
                                      a_updated_at := now\<rparr>
                              else ag) (agents d)\<rparr>)"

text \<open>\<^verbatim>\<open>UPDATE agents SET status = ?, updated_at = CURRENT_TIMESTAMP WHERE id = ?\<close>\<close>

definition UPDATE_agent_status :: "nat \<Rightarrow> string \<Rightarrow> string \<Rightarrow> database \<Rightarrow> nat \<times> database" where
  "UPDATE_agent_status now st agentId d =
     (length (filter (\<lambda>ag. a_id ag = agentId) (agents d)),
      d\<lparr>agents := map (\<lambda>ag. if a_id ag = agentId
                              then ag\<lparr>a_status := st, a_updated_at := now\<rparr>
                              else ag) (agents d)\<rparr>)"

text \<open>
  The argument of \<^verbatim>\<open>resolveReview\<close> is bound to the \<^verbatim>\<open>?\<close> of \<^verbatim>\<open>WHERE id = ?\<close>. It
  is a number when a caller has one, and the text of the path segment when the route
  calls. \<open>id_is p i\<close>: the key \<open>i\<close> is equal to the bound value \<open>p\<close>.
\<close>

datatype id_param = IdNumber int | IdText string

definition rowid_of_param :: "id_param \<Rightarrow> int option" where
  "rowid_of_param p = (case p of IdNumber i \<Rightarrow> Some i | IdText z \<Rightarrow> rowid_of_text z)"

definition json_of_param :: "id_param \<Rightarrow> json" where
  "json_of_param p = (case p of IdNumber i \<Rightarrow> JNum i | IdText z \<Rightarrow> JStr z)"

definition id_is :: "id_param \<Rightarrow> int \<Rightarrow> bool" where
  "id_is p i = (rowid_of_param p = Some i)"

text \<open>\<^verbatim>\<open>UPDATE reviews SET status = 'resolved', resolved_at = CURRENT_TIMESTAMP WHERE id = ?\<close>\<close>

definition UPDATE_review_resolved :: "nat \<Rightarrow> id_param \<Rightarrow> database \<Rightarrow> nat \<times> database" where
  "UPDATE_review_resolved now reviewId d =
     (length (filter (\<lambda>r. id_is reviewId (r_id r)) (reviews d)),
      d\<lparr>reviews := map (\<lambda>r. if id_is reviewId (r_id r)
                              then r\<lparr>r_status := ''resolved'', r_resolved_at := Some now\<rparr>
                              else r) (reviews d)\<rparr>)"

text \<open>\<^verbatim>\<open>SELECT agent_id, question FROM reviews WHERE id = ?\<close>, first row or nothing.\<close>

definition SELECT_review :: "id_param \<Rightarrow> database \<Rightarrow> review option" where
  "SELECT_review reviewId d = List.find (\<lambda>r. id_is reviewId (r_id r)) (reviews d)"

text \<open>
  \<^verbatim>\<open>LIMIT ?\<close>: at most that many rows; a negative limit is no limit in SQLite.
\<close>

definition LIMIT :: "int \<Rightarrow> 'a list \<Rightarrow> 'a list" where
  "LIMIT n rows = (if n < 0 then rows else take (nat n) rows)"

text \<open>
  \<^verbatim>\<open>ORDER BY timestamp DESC\<close>. SQL fixes no order among rows with equal sort keys;
  the model keeps them in the order of the scan, which is the order of insertion
  (ascending row id), as SQLite does when it sorts for a query with a \<^verbatim>\<open>LIMIT\<close>.
\<close>

definition ORDER_BY_timestamp_DESC :: "('a activity_scheme) list \<Rightarrow> ('a activity_scheme) list" where
  "ORDER_BY_timestamp_DESC rows = sort_key (\<lambda>a. - int (act_timestamp a)) rows"

text \<open>
  \<^verbatim>\<open>CASE r.priority WHEN 'high' THEN 1 WHEN 'medium' THEN 2 WHEN 'low' THEN 3 ELSE 4 END\<close>
\<close>

definition priority_rank :: "string \<Rightarrow> nat" where
  "priority_rank p =
     (if p = ''high'' then 1 else if p = ''medium'' then 2 else if p = ''low'' then 3 else 4)"

text \<open>\<^verbatim>\<open>ORDER BY CASE ... END, r.created_at DESC\<close>, on pairs ordered lexicographically.\<close>

definition ORDER_BY_priority_created_at_DESC ::
  "('a review_cols_scheme) list \<Rightarrow> ('a review_cols_scheme) list" where
  "ORDER_BY_priority_created_at_DESC rows =
     sort_key (\<lambda>r. (priority_rank (r_priority r), - int (r_created_at r))) rows"

subsection \<open>The exported functions of db.js\<close>

text \<open>
  The module variable \<^verbatim>\<open>db\<close> is \<open>None\<close> until \<^verbatim>\<open>initDb\<close> has opened the database.
  Every function below takes the value of that variable as its last argument. A function
  that writes returns what it returned or threw, together with the new value of the
  variable; a function that only reads returns what it returned or threw.
\<close>

text \<open>\<^verbatim>\<open>logActivity(agentId, type, description, metadata = {})\<close>, db.js lines 149-166.\<close>

definition logActivity ::
  "nat \<Rightarrow> string \<Rightarrow> string \<Rightarrow> string \<Rightarrow> json \<Rightarrow> database option
     \<Rightarrow> (error + int) \<times> database option" where
  "logActivity now agentId ty description metadata db =
     (case db of
        None \<Rightarrow> (Inl not_initialized, db)
      | Some d \<Rightarrow>
          (let metadataJson = JSON_stringify metadata
           in case INSERT_activity now agentId ty description metadataJson d of
                Inl e \<Rightarrow> (Inl e, db)
              | Inr (lastInsertRowid, d1) \<Rightarrow>
                  (Inr lastInsertRowid, Some (snd (UPDATE_agent_updated_at now agentId d1)))))"

text \<open>\<^verbatim>\<open>updateAgentTask(agentId, task)\<close>, db.js lines 169-185.\<close>

definition updateAgentTask ::
  "nat \<Rightarrow> string \<Rightarrow> string \<Rightarrow> database option \<Rightarrow> (error + bool) \<times> database option" where
  "updateAgentTask now agentId task db =
     (case db of
        None \<Rightarrow> (Inl not_initialized, db)
      | Some d \<Rightarrow>
          (let (changes, d1) = UPDATE_agent_task now task agentId d
           in if changes > 0
              then (case logActivity now agentId ''task_update'' (''Updated task: '' @ task)
                           (JObj [(''task'', JStr task)]) (Some d1) of
                      (Inl e, db1) \<Rightarrow> (Inl e, db1)
                    | (Inr _, db1) \<Rightarrow> (Inr (changes > 0), db1))
              else (Inr (changes > 0), Some d1)))"

text \<open>\<^verbatim>\<open>updateAgentStatus(agentId, status)\<close>, db.js lines 188-198.\<close>

definition updateAgentStatus ::
  "nat \<Rightarrow> string \<Rightarrow> string \<Rightarrow> database option \<Rightarrow> (error + bool) \<times> database option" where
  "updateAgentStatus now agentId st db =
     (case db of
        None \<Rightarrow> (Inl not_initialized, db)
      | Some d \<Rightarrow>
          (let (changes, d1) = UPDATE_agent_status now st agentId d
           in (Inr (changes > 0), Some d1)))"

text \<open>
  \<^verbatim>\<open>getAllAgents()\<close>, db.js lines 201-209: \<^verbatim>\<open>ORDER BY name\<close>, which compares
  the names byte by byte.
\<close>

definition getAllAgents :: "database option \<Rightarrow> error + agent list" where
  "getAllAgents db =
     (case db of
        None \<Rightarrow> Inl not_initialized
      | Some d \<Rightarrow> Inr (sort_key a_name (agents d)))"

text \<open>\<^verbatim>\<open>getAgent(agentId)\<close>, db.js lines 212-220: the row, or \<^verbatim>\<open>undefined\<close>.\<close>

definition getAgent :: "string \<Rightarrow> database option \<Rightarrow> error + agent option" where
  "getAgent agentId db =
     (case db of
        None \<Rightarrow> Inl not_initialized
      | Some d \<Rightarrow> Inr (List.find (\<lambda>ag. a_id ag = agentId) (agents d)))"




text \<open>
  \<^verbatim>\<open>getPendingReviews()\<close>, db.js lines 251-270: reviews joined with their agents,
  \<^verbatim>\<open>WHERE r.status = 'pending'\<close>, ordered by priority rank, then \<^verbatim>\<open>created_at DESC\<close>.
\<close>

definition JOIN_review_agent :: "review \<Rightarrow> agent \<Rightarrow> review_row" where
  "JOIN_review_agent r ag =
     \<lparr>r_id = r_id r, r_agent_id = r_agent_id r, r_question = r_question r,
      r_priority = r_priority r, r_status = r_status r, r_created_at = r_created_at r,
      r_agent_name = a_name ag, r_agent_emoji = a_emoji ag\<rparr>"

definition getPendingReviews :: "database option \<Rightarrow> error + review_row list" where
  "getPendingReviews db =
     (case db of
        None \<Rightarrow> Inl not_initialized
      | Some d \<Rightarrow>
          Inr (ORDER_BY_priority_created_at_DESC
                 [JOIN_review_agent r ag. r \<leftarrow> reviews d, ag \<leftarrow> agents d,
                                          r_agent_id r = a_id ag, r_status r = ''pending'']))"


text \<open>
  \<^verbatim>\<open>resolveReview(reviewId)\<close>, db.js lines 292-313. The \<^verbatim>\<open>UPDATE\<close> selects the row by
  its id alone.
\<close>

definition resolveReview ::
  "nat \<Rightarrow> id_param \<Rightarrow> database option \<Rightarrow> (error + bool) \<times> database option" where
  "resolveReview now reviewId db =
     (case db of
        None \<Rightarrow> (Inl not_initialized, db)
      | Some d \<Rightarrow>
          (let (changes, d1) = UPDATE_review_resolved now reviewId d
           in if changes > 0
              then (case SELECT_review reviewId d1 of
                      Some review \<Rightarrow>
                        (case logActivity now (r_agent_id review) ''review_resolved''
                                (''Resolved review: '' @ substring 50 (r_question review) @ ''...'')
                                (JObj [(''review_id'', json_of_param reviewId)]) (Some d1) of
                           (Inl e, db1) \<Rightarrow> (Inl e, db1)
                         | (Inr _, db1) \<Rightarrow> (Inr (changes > 0), db1))
                    | None \<Rightarrow> (Inr (changes > 0), Some d1))
              else (Inr (changes > 0), Some d1)))"

subsection \<open>Opening and seeding the database\<close>

text \<open>
  \<^verbatim>\<open>new Database(DB_PATH)\<close> followed by the \<^verbatim>\<open>CREATE TABLE IF NOT EXISTS\<close> statements
  of \<^verbatim>\<open>initDb\<close>: a file that does not exist yet becomes a database with three empty
  tables, an existing one keeps its rows. The connection enforces foreign keys, the
  setting better-sqlite3 is compiled with.
\<close>

definition empty_database :: database where
  "empty_database =
     \<lparr>agents = [], activities = [], reviews = [], seq_activities = 0, seq_reviews = 0,
      foreign_keys = True\<rparr>"

definition new_Database :: "database option \<Rightarrow> database" where
  "new_Database file =
     (case file of None \<Rightarrow> empty_database | Some d \<Rightarrow> d\<lparr>foreign_keys := True\<rparr>)"

text \<open>The emoji of the seed agents, as UTF-8: U+1F415, U+26A1, U+1F527.\<close>

definition emoji_dog :: string where
  "emoji_dog = [CHR 0xF0, CHR 0x9F, CHR 0x90, CHR 0x95]"

definition emoji_zap :: string where
  "emoji_zap = [CHR 0xE2, CHR 0x9A, CHR 0xA1]"

definition emoji_wrench :: string where
  "emoji_wrench = [CHR 0xF0, CHR 0x9F, CHR 0x94, CHR 0xA7]"

record seed_agent =
  s_id :: string
  s_name :: string
  s_emoji :: string
  s_role :: string
  s_model :: string
  s_status :: string
  s_task :: string

definition seed_agents :: "seed_agent list" where
  "seed_agents =
     [\<lparr>s_id = ''buppy'', s_name = ''Buppy'', s_emoji = emoji_dog,
       s_role = ''Primary Coordinator'', s_model = ''moonshot/kimi-k2.5'', s_status = ''active'',
       s_task = ''Coordinating agent fleet and managing Admin requests''\<rparr>,
      \<lparr>s_id = ''zoomie'', s_name = ''Zoomie'', s_emoji = emoji_zap,
       s_role = ''AIGIS Lead Developer'', s_model = ''nvidia/kimi-k2.5'', s_status = ''active'',
       s_task = ''Implementing iOS Screen Time integration for AIGIS Phase 2''\<rparr>,
      \<lparr>s_id = ''mechly'', s_name = ''Mechly'', s_emoji = emoji_wrench,
       s_role = ''Tool Builder & Infrastructure'', s_model = ''moonshot/kimi-k2.5'',
       s_status = ''active'',
       s_task = ''Building Agent Dashboard UI and API endpoints''\<rparr>]"

text \<open>\<^verbatim>\<open>seedSampleReviews()\<close>, db.js lines 135-146: three inserts, in this order.\<close>

definition sample_reviews :: "(string \<times> string \<times> string) list" where
  "sample_reviews =
     [(''zoomie'', ''Should we use SwiftUI or UIKit for the AIGIS iOS enforcement module?'', ''high''),
      (''mechly'', ''What database should we use for the agent session storage - SQLite or PostgreSQL?'', ''medium''),
      (''buppy'', ''Should we add voice notifications for urgent reviews?'', ''low'')]"

fun insert_reviews :: "nat \<Rightarrow> (string \<times> string \<times> string) list \<Rightarrow> database \<Rightarrow> error + database" where
  "insert_reviews now [] d = Inr d"
| "insert_reviews now ((agentId, question, priority) # rest) d =
     (case INSERT_review now agentId question priority ''pending'' d of
        Inl e \<Rightarrow> Inl e
      | Inr (_, d1) \<Rightarrow> insert_reviews now rest d1)"

text \<open>A method call on the variable \<^verbatim>\<open>db\<close> while it is \<^verbatim>\<open>null\<close> throws a TypeError.\<close>

definition null_db_TypeError :: error where
  "null_db_TypeError = Error ''Cannot read properties of null''"

definition seedSampleReviews :: "nat \<Rightarrow> database option \<Rightarrow> (error + unit) \<times> database option" where
  "seedSampleReviews now db =
     (case db of
        None \<Rightarrow> (Inl null_db_TypeError, db)
      | Some d \<Rightarrow>
          (case insert_reviews now sample_reviews d of
             Inl e \<Rightarrow> (Inl e, db)
           | Inr d1 \<Rightarrow> (Inr (), Some d1)))"

text \<open>
  \<^verbatim>\<open>seedInitialAgents()\<close>, db.js lines 84-132. The loop inserts each agent and logs its
  first activity; the sample reviews follow the loop. Nothing is done when the agents
  table has a row.
\<close>

fun seed_loop :: "nat \<Rightarrow> seed_agent list \<Rightarrow> database option \<Rightarrow> (error + unit) \<times> database option" where
  "seed_loop now [] db = (Inr (), db)"
| "seed_loop now (agent # rest) db =
     (case db of
        None \<Rightarrow> (Inl null_db_TypeError, db)
      | Some d \<Rightarrow>
          (case INSERT_agent now (s_id agent) (s_name agent) (s_emoji agent) (s_role agent)
                  (s_model agent) (s_status agent) (s_task agent) d of
             Inl e \<Rightarrow> (Inl e, db)
           | Inr d1 \<Rightarrow>
               (case logActivity now (s_id agent) ''system'' (s_name agent @ '' initialized and ready'')
                       (JObj [(''source'', JStr ''database_seed'')]) (Some d1) of
                  (Inl e, db1) \<Rightarrow> (Inl e, db1)
                | (Inr _, db1) \<Rightarrow> seed_loop now rest db1)))"

definition seedInitialAgents :: "nat \<Rightarrow> database option \<Rightarrow> (error + unit) \<times> database option" where
  "seedInitialAgents now db =
     (case db of
        None \<Rightarrow> (Inl null_db_TypeError, db)
      | Some d \<Rightarrow>
          (if length (agents d) = 0
           then (case seed_loop now seed_agents db of
                   (Inl e, db1) \<Rightarrow> (Inl e, db1)
                 | (Inr _, db1) \<Rightarrow> seedSampleReviews now db1)
           else (Inr (), db)))"

text \<open>
  \<^verbatim>\<open>initDb()\<close>, db.js lines 12-81. The argument \<open>file\<close> is the database file as found
  on disk, \<open>None\<close> when there is none. The handle that \<^verbatim>\<open>initDb\<close> returns is the value
  it leaves in the variable \<^verbatim>\<open>db\<close>, the second component of the result; what the
  connection holds is what the file holds.
\<close>

definition initDb :: "nat \<Rightarrow> database option \<Rightarrow> (error + unit) \<times> database option" where
  "initDb now file = seedInitialAgents now (Some (new_Database file))"

text \<open>\<^verbatim>\<open>closeDb()\<close>, db.js lines 328-333.\<close>

definition closeDb :: "database option \<Rightarrow> database option" where
  "closeDb db = None"

subsection \<open>The server: push connections and broadcast\<close>

text \<open>
  The server of \<^verbatim>\<open>src/unnamed/part_000\<close>, lines 1-391, which is built on db.js.
  A push connection is an object of the \<^verbatim>\<open>ws\<close> library: its \<^verbatim>\<open>readyState\<close> and the
  messages handed to its \<^verbatim>\<open>send\<close>, oldest first. \<^verbatim>\<open>send\<close> throws on a connection that
  is still connecting, queues the message on an open one, and drops it otherwise.
  The set \<^verbatim>\<open>clients\<close> is the list of its members in the order they were added, which
  is the order \<^verbatim>\<open>forEach\<close> visits them in.
\<close>

datatype ready_state = CONNECTING | OPEN | CLOSING | CLOSED

record websocket =
  ws_id :: nat
  readyState :: ready_state
  sent :: "string list"

definition send :: "string \<Rightarrow> websocket \<Rightarrow> error + websocket" where
  "send message ws =
     (if readyState ws = CONNECTING
      then Inl (Error ''WebSocket is not open: readyState 0 (CONNECTING)'')
      else if readyState ws = OPEN then Inr (ws\<lparr>sent := sent ws @ [message]\<rparr>)
      else Inr ws)"

definition Set_add :: "websocket \<Rightarrow> websocket list \<Rightarrow> websocket list" where
  "Set_add ws cs = (if ws_id ws \<in> set (map ws_id cs) then cs else cs @ [ws])"

definition Set_delete :: "nat \<Rightarrow> websocket list \<Rightarrow> websocket list" where
  "Set_delete i cs = filter (\<lambda>c. ws_id c \<noteq> i) cs"

text \<open>
  The state of the server: the variable \<^verbatim>\<open>db\<close> of db.js, here \<open>dbvar\<close>, and the set
  \<^verbatim>\<open>clients\<close>.
\<close>

record server =
  dbvar :: "database option"
  clients :: "websocket list"

text \<open>
  \<^verbatim>\<open>broadcast(data)\<close>, part_000 lines 273-280. The message is serialized once; the loop
  sends it to the members that are open. An exception of \<^verbatim>\<open>send\<close> would leave the loop.
\<close>

fun forEach_send :: "string \<Rightarrow> websocket list \<Rightarrow> (error + unit) \<times> websocket list" where
  "forEach_send message [] = (Inr (), [])"
| "forEach_send message (client # rest) =
     (if readyState client = OPEN
      then (case send message client of
              Inl e \<Rightarrow> (Inl e, client # rest)
            | Inr client1 \<Rightarrow>
                (case forEach_send message rest of (r, rest1) \<Rightarrow> (r, client1 # rest1)))
      else (case forEach_send message rest of (r, rest1) \<Rightarrow> (r, client # rest1)))"

definition broadcast :: "json \<Rightarrow> websocket list \<Rightarrow> (error + unit) \<times> websocket list" where
  "broadcast data cs = (let message = JSON_stringify data in forEach_send message cs)"

text \<open>
  \<^verbatim>\<open>logAgentActivity(agentId, type, description, metadata = {})\<close>, part_000 lines 42-59:
  the activity id, or \<^verbatim>\<open>null\<close> when anything in it threw. The argument \<open>stamp\<close> is the
  text that \<^verbatim>\<open>new Date().toISOString()\<close> returns when the function reads the clock of
  JavaScript; every handler below takes one such text for each reading it makes.
\<close>

definition logAgentActivity ::
  "nat \<Rightarrow> string \<Rightarrow> string \<Rightarrow> string \<Rightarrow> string \<Rightarrow> json \<Rightarrow> server
     \<Rightarrow> int option \<times> server" where
  "logAgentActivity now stamp agentId ty description metadata s =
     (case logActivity now agentId ty description metadata (dbvar s) of
        (Inl e, db1) \<Rightarrow> (None, s\<lparr>dbvar := db1\<rparr>)
      | (Inr activityId, db1) \<Rightarrow>
          (let activity = JObj [(''id'', JNum activityId), (''agent_id'', JStr agentId),
                                (''type'', JStr ty), (''description'', JStr description),
                                (''metadata_json'', JStr (JSON_stringify metadata)),
                                (''timestamp'', JStr stamp)]
           in case broadcast (JObj [(''type'', JStr ''activity''), (''agentId'', JStr agentId),
                                    (''activity'', activity)]) (clients s) of
                (Inl e, cs) \<Rightarrow> (None, \<lparr>dbvar = db1, clients = cs\<rparr>)
              | (Inr _, cs) \<Rightarrow> (Some activityId, \<lparr>dbvar = db1, clients = cs\<rparr>)))"

subsection \<open>The routes that write\<close>

text \<open>
  A response is its status code and its JSON body. A handler takes what it reads of the
  request: the \<^verbatim>\<open>:id\<close> of the path, a text, and the fields of the body. A field of
  the body is \<open>None\<close> when the body has none of that name, and a string otherwise.
\<close>

record response =
  status_code :: nat
  body :: json

definition error_response :: "nat \<Rightarrow> string \<Rightarrow> response" where
  "error_response code msg = \<lparr>status_code = code, body = JObj [(''error'', JStr msg)]\<rparr>"

text \<open>\<^verbatim>\<open>app.post('/api/agents/:id/status')\<close>, part_000 lines 126-153.\<close>

definition post_agent_status ::
  "nat \<Rightarrow> string \<Rightarrow> string \<Rightarrow> string \<Rightarrow> string option \<Rightarrow> server \<Rightarrow> response \<times> server" where
  "post_agent_status now stamp1 stamp2 ident status_field s =
     (case status_field of
        None \<Rightarrow> (error_response 400 ''Status is required'', s)
      | Some st \<Rightarrow>
          if st = [] then (error_response 400 ''Status is required'', s)
          else
            (case getAgent ident (dbvar s) of
               Inl e \<Rightarrow> (error_response 500 (err_message e), s)
             | Inr None \<Rightarrow> (error_response 404 ''Agent not found'', s)
             | Inr (Some agent) \<Rightarrow>
                 (case updateAgentStatus now ident st (dbvar s) of
                    (Inl e, db1) \<Rightarrow> (error_response 500 (err_message e), s\<lparr>dbvar := db1\<rparr>)
                  | (Inr success, db1) \<Rightarrow>
                      if success
                      then (let (activityId, s1) =
                                  logAgentActivity now stamp1 ident ''status_change''
                                    (''Status changed to '' @ st) (JObj [(''status'', JStr st)])
                                    (s\<lparr>dbvar := db1\<rparr>)
                            in case broadcast (JObj [(''type'', JStr ''status_update''),
                                                     (''agentId'', JStr ident), (''status'', JStr st),
                                                     (''timestamp'', JStr stamp2)])
                                      (clients s1) of
                                 (Inl e, cs) \<Rightarrow>
                                   (error_response 500 (err_message e), s1\<lparr>clients := cs\<rparr>)
                               | (Inr _, cs) \<Rightarrow>
                                   (\<lparr>status_code = 200,
                                     body = JObj [(''success'', JBool True), (''status'', JStr st)]\<rparr>,
                                    s1\<lparr>clients := cs\<rparr>))
                      else (error_response 500 ''Failed to update status'', s\<lparr>dbvar := db1\<rparr>))))"

text \<open>\<^verbatim>\<open>app.patch('/api/reviews/:id/resolve')\<close>, part_000 lines 236-249.\<close>

definition patch_review_resolve :: "nat \<Rightarrow> string \<Rightarrow> server \<Rightarrow> response \<times> server" where
  "patch_review_resolve now ident s =
     (case resolveReview now (IdText ident) (dbvar s) of
        (Inl e, db1) \<Rightarrow> (error_response 500 (err_message e), s\<lparr>dbvar := db1\<rparr>)
      | (Inr success, db1) \<Rightarrow>
          if \<not> success then (error_response 404 ''Review not found'', s\<lparr>dbvar := db1\<rparr>)
          else
            (case broadcast (JObj [(''type'', JStr ''review-resolved''),
                                   (''reviewId'', JStr ident)]) (clients s) of
               (Inl e, cs) \<Rightarrow> (error_response 500 (err_message e), \<lparr>dbvar = db1, clients = cs\<rparr>)
             | (Inr _, cs) \<Rightarrow>
                 (\<lparr>status_code = 200,
                   body = JObj [(''success'', JBool True),
                                (''reviewId'', JStr ident)]\<rparr>,
                  \<lparr>dbvar = db1, clients = cs\<rparr>)))"

subsection \<open>Connecting and disconnecting\<close>

definition json_of_agent :: "agent \<Rightarrow> json" where
  "json_of_agent ag =
     JObj [(''id'', JStr (a_id ag)), (''name'', JStr (a_name ag)), (''emoji'', JStr (a_emoji ag)),
           (''role'', JStr (a_role ag)), (''model'', JStr (a_model ag)),
           (''status'', JStr (a_status ag)),
           (''current_task'', case a_current_task ag of None \<Rightarrow> JNull | Some t \<Rightarrow> JStr t),
           (''updated_at'', JStr (datetime_text (a_updated_at ag)))]"

definition json_of_review_row :: "review_row \<Rightarrow> json" where
  "json_of_review_row r =
     JObj [(''id'', JNum (r_id r)), (''agent_id'', JStr (r_agent_id r)),
           (''question'', JStr (r_question r)), (''priority'', JStr (r_priority r)),
           (''status'', JStr (r_status r)), (''created_at'', JStr (datetime_text (r_created_at r))),
           (''agent_name'', JStr (r_agent_name r)), (''agent_emoji'', JStr (r_agent_emoji r))]"

text \<open>
  \<^verbatim>\<open>wss.on('connection')\<close>, part_000 lines 282-299: the connection joins the set and is
  sent the snapshot; an exception on the way is logged and dropped.
\<close>

definition send_init :: "string \<Rightarrow> websocket \<Rightarrow> websocket" where
  "send_init message ws = (case send message ws of Inl e \<Rightarrow> ws | Inr ws1 \<Rightarrow> ws1)"

definition on_connection :: "websocket \<Rightarrow> server \<Rightarrow> server" where
  "on_connection ws s =
     (let cs = Set_add ws (clients s)
      in case getAllAgents (dbvar s) of
           Inl e \<Rightarrow> s\<lparr>clients := cs\<rparr>
         | Inr ags \<Rightarrow>
             (case getPendingReviews (dbvar s) of
                Inl e \<Rightarrow> s\<lparr>clients := cs\<rparr>
              | Inr revs \<Rightarrow>
                  (let message = JSON_stringify
                         (JObj [(''type'', JStr ''init''), (''agents'', JArr (map json_of_agent ags)),
                                (''reviews'', JArr (map json_of_review_row revs))])
                   in s\<lparr>clients := map (\<lambda>c. if ws_id c = ws_id ws then send_init message c else c) cs\<rparr>)))"

text \<open>The handler of the \<^verbatim>\<open>close\<close> event of a connection: \<^verbatim>\<open>clients.delete(ws)\<close>.\<close>

definition on_close :: "nat \<Rightarrow> server \<Rightarrow> server" where
  "on_close i s = s\<lparr>clients := Set_delete i (clients s)\<rparr>"

subsection \<open>Scenarios\<close>

text \<open>
  The database that the first \<^verbatim>\<open>initDb\<close> leaves when it runs at second \<open>now\<close> and finds
  no file: the three agents, their first activities and the three sample reviews
  (lemma \<open>initDb_fresh\<close> below).
\<close>

definition seeded :: "nat \<Rightarrow> database" where
  "seeded now =
     \<lparr>agents =
        [\<lparr>a_id = ''buppy'', a_name = ''Buppy'', a_emoji = emoji_dog,
          a_role = ''Primary Coordinator'', a_model = ''moonshot/kimi-k2.5'', a_status = ''active'',
          a_current_task = Some ''Coordinating agent fleet and managing Admin requests'',
          a_updated_at = now\<rparr>,
         \<lparr>a_id = ''zoomie'', a_name = ''Zoomie'', a_emoji = emoji_zap,
          a_role = ''AIGIS Lead Developer'', a_model = ''nvidia/kimi-k2.5'', a_status = ''active'',
          a_current_task = Some ''Implementing iOS Screen Time integration for AIGIS Phase 2'',
          a_updated_at = now\<rparr>,
         \<lparr>a_id = ''mechly'', a_name = ''Mechly'', a_emoji = emoji_wrench,
          a_role = ''Tool Builder & Infrastructure'', a_model = ''moonshot/kimi-k2.5'',
          a_status = ''active'',
          a_current_task = Some ''Building Agent Dashboard UI and API endpoints'',
          a_updated_at = now\<rparr>],
      activities =
        [\<lparr>act_id = 1, act_agent_id = ''buppy'', act_type = ''system'',
          act_description = ''Buppy initialized and ready'',
          act_metadata_json = JSON_stringify (JObj [(''source'', JStr ''database_seed'')]),
          act_timestamp = now\<rparr>,
         \<lparr>act_id = 2, act_agent_id = ''zoomie'', act_type = ''system'',
          act_description = ''Zoomie initialized and ready'',
          act_metadata_json = JSON_stringify (JObj [(''source'', JStr ''database_seed'')]),
          act_timestamp = now\<rparr>,
         \<lparr>act_id = 3, act_agent_id = ''mechly'', act_type = ''system'',
          act_description = ''Mechly initialized and ready'',
          act_metadata_json = JSON_stringify (JObj [(''source'', JStr ''database_seed'')]),
          act_timestamp = now\<rparr>],
      reviews =
        [\<lparr>r_id = 1, r_agent_id = ''zoomie'',
          r_question = ''Should we use SwiftUI or UIKit for the AIGIS iOS enforcement module?'',
          r_priority = ''high'', r_status = ''pending'', r_created_at = now, r_resolved_at = None\<rparr>,
         \<lparr>r_id = 2, r_agent_id = ''mechly'',
          r_question = ''What database should we use for the agent session storage - SQLite or PostgreSQL?'',
          r_priority = ''medium'', r_status = ''pending'', r_created_at = now, r_resolved_at = None\<rparr>,
         \<lparr>r_id = 3, r_agent_id = ''buppy'',
          r_question = ''Should we add voice notifications for urgent reviews?'',
          r_priority = ''low'', r_status = ''pending'', r_created_at = now, r_resolved_at = None\<rparr>],
      seq_activities = 3, seq_reviews = 3, foreign_keys = True\<rparr>"

text \<open>
  \<^verbatim>\<open>initDb\<close> called once for each second of the list, every call on the file the call
  before it left.
\<close>

fun initDb_times :: "nat list \<Rightarrow> database option \<Rightarrow> database option" where
  "initDb_times [] file = file"
| "initDb_times (now # later) file = initDb_times later (snd (initDb now file))"


section \<open>Properties\<close>

subsection \<open>Row ids\<close>

lemma fold_max_ge_init: "(a::int) \<le> fold max ids a"
  by (induction ids arbitrary: a) (auto intro: order_trans [OF max.cobounded2])

lemma fold_max_ge_elem: "x \<in> set ids \<Longrightarrow> (x::int) \<le> fold max ids a"
proof (induction ids arbitrary: a)
  case Nil
  then show ?case by simp
next
  case (Cons y ys)
  show ?case
  proof (cases "x = y")
    case True
    have "y \<le> max y a" by simp
    also have "\<dots> \<le> fold max ys (max y a)" by (rule fold_max_ge_init)
    finally show ?thesis using True by simp
  next
    case False
    with Cons.prems have "x \<in> set ys" by simp
    then show ?thesis using Cons.IH by simp
  qed
qed

lemma next_rowid_fresh: "next_rowid seq ids \<notin> set ids"
proof
  assume "next_rowid seq ids \<in> set ids"
  then have "next_rowid seq ids \<le> fold max ids (max seq 0)" by (rule fold_max_ge_elem)
  then show False by (simp add: next_rowid_def)
qed

subsection \<open>What logActivity does\<close>

lemma logActivity_unknown:
  "foreign_keys d \<Longrightarrow> \<not> agent_exists agentId d \<Longrightarrow>
   logActivity now agentId ty description metadata (Some d) = (Inl foreign_key_failed, Some d)"
  by (simp add: logActivity_def INSERT_activity_def fk_violation_def)

lemma logActivity_known:
  "agent_exists agentId d \<Longrightarrow>
   logActivity now agentId ty description metadata (Some d) =
     (Inr (next_rowid (seq_activities d) (map act_id (activities d))),
      Some (d\<lparr>activities := activities d @
                 [\<lparr>act_id = next_rowid (seq_activities d) (map act_id (activities d)),
                   act_agent_id = agentId, act_type = ty, act_description = description,
                   act_metadata_json = JSON_stringify metadata, act_timestamp = now\<rparr>],
               seq_activities := next_rowid (seq_activities d) (map act_id (activities d)),
               agents := map (\<lambda>ag. if a_id ag = agentId then ag\<lparr>a_updated_at := now\<rparr> else ag)
                           (agents d)\<rparr>))"
  by (simp add: logActivity_def INSERT_activity_def fk_violation_def UPDATE_agent_updated_at_def
      Let_def)

subsection \<open>The first start\<close>

lemma initDb_fresh: "initDb now None = (Inr (), Some (seeded now))"
  by (simp add: initDb_def new_Database_def empty_database_def seedInitialAgents_def seed_agents_def
      INSERT_agent_def agent_exists_def logActivity_def INSERT_activity_def fk_violation_def
      UPDATE_agent_updated_at_def next_rowid_def seedSampleReviews_def sample_reviews_def
      INSERT_review_def seeded_def Let_def)

subsection \<open>Updates select their rows by the key\<close>

lemma update_keeps_ids:
  "(\<And>ag. a_id (f ag) = a_id ag) \<Longrightarrow> map a_id (map f ags) = map a_id ags"
  by (induction ags) auto

lemma update_unknown:
  "agentId \<notin> set (map a_id ags) \<Longrightarrow> map (\<lambda>ag. if a_id ag = agentId then f ag else ag) ags = ags"
  by (induction ags) auto

lemma changes_positive:
  "agentId \<in> set (map a_id ags) \<longleftrightarrow> 0 < length (filter (\<lambda>ag. a_id ag = agentId) ags)"
  by (induction ags) auto

lemma seeded_agents_known:
  "agent_exists ''buppy'' (seeded now)" "agent_exists ''zoomie'' (seeded now)"
  "agent_exists ''mechly'' (seeded now)" "\<not> agent_exists ''ghost'' (seeded now)"
  by (simp_all add: seeded_def agent_exists_def)

subsection \<open>The order of the pending view\<close>




subsection \<open>What addReview and resolveReview do\<close>



lemma find_update:
  "(\<And>r. P (f r) = P r) \<Longrightarrow>
   List.find P (map (\<lambda>r. if P r then f r else r) rs) = map_option f (List.find P rs)"
  by (induction rs) auto

lemma find_None_filter: "List.find P rs = None \<Longrightarrow> filter P rs = []"
  by (induction rs) (auto split: if_splits)

lemma find_None_update: "List.find P rs = None \<Longrightarrow> map (\<lambda>r. if P r then f r else r) rs = rs"
  by (induction rs) (auto split: if_splits)

lemma find_Some_filter: "List.find P rs = Some r \<Longrightarrow> 0 < length (filter P rs)"
  by (induction rs) (auto split: if_splits)

lemma resolveReview_missing:
  assumes "List.find (\<lambda>r. id_is reviewId (r_id r)) (reviews d) = None"
  shows "resolveReview now reviewId (Some d) = (Inr False, Some d)"
  using find_None_filter [OF assms] find_None_update [OF assms]
  by (simp add: resolveReview_def UPDATE_review_resolved_def)

lemma resolveReview_present:
  assumes found: "List.find (\<lambda>r. id_is reviewId (r_id r)) (reviews d) = Some r0"
    and known: "agent_exists (r_agent_id r0) d"
  shows "resolveReview now reviewId (Some d) =
     (Inr True,
      Some (d\<lparr>reviews := map (\<lambda>r. if id_is reviewId (r_id r)
                                   then r\<lparr>r_status := ''resolved'', r_resolved_at := Some now\<rparr>
                                   else r) (reviews d),
               activities := activities d @
                 [\<lparr>act_id = next_rowid (seq_activities d) (map act_id (activities d)),
                   act_agent_id = r_agent_id r0, act_type = ''review_resolved'',
                   act_description = ''Resolved review: '' @ substring 50 (r_question r0) @ ''...'',
                   act_metadata_json = JSON_stringify (JObj [(''review_id'', json_of_param reviewId)]),
                   act_timestamp = now\<rparr>],
               seq_activities := next_rowid (seq_activities d) (map act_id (activities d)),
               agents := map (\<lambda>ag. if a_id ag = r_agent_id r0 then ag\<lparr>a_updated_at := now\<rparr> else ag)
                           (agents d)\<rparr>))"
proof -
  let ?res = "\<lambda>r. r\<lparr>r_status := ''resolved'', r_resolved_at := Some now\<rparr>"
  let ?P = "\<lambda>r. id_is reviewId (r_id r)"
  let ?d1 = "d\<lparr>reviews := map (\<lambda>r. if ?P r then ?res r else r) (reviews d)\<rparr>"
  have changes: "0 < length (filter ?P (reviews d))"
    using found by (rule find_Some_filter)
  have "List.find ?P (map (\<lambda>r. if ?P r then ?res r else r) (reviews d))
          = map_option ?res (List.find ?P (reviews d))"
    by (rule find_update) simp
  then have sel: "SELECT_review reviewId ?d1 = Some (?res r0)"
    using found by (simp add: SELECT_review_def)
  have known1: "agent_exists (r_agent_id r0) ?d1"
    using known by (simp add: agent_exists_def)
  show ?thesis
    using changes sel
    by (simp add: resolveReview_def UPDATE_review_resolved_def logActivity_known [OF known1]
          del: JSON_stringify.simps)
qed

subsection \<open>The pending view after three reviews\<close>








subsection \<open>The order of the activity reads\<close>

lemma LIMIT_length: "0 \<le> n \<Longrightarrow> length (LIMIT n rows) = min (nat n) (length rows)"
  by (simp add: LIMIT_def min_def)

lemma LIMIT_negative: "n < 0 \<Longrightarrow> LIMIT n rows = rows"
  by (simp add: LIMIT_def)


lemma ORDER_BY_timestamp_length: "length (ORDER_BY_timestamp_DESC rows) = length rows"
  by (simp add: ORDER_BY_timestamp_DESC_def)










lemma sort_key_newest_last:
  "\<forall>y \<in> set xs. f x < f y \<Longrightarrow> sort_key f (xs @ [x]) = x # sort_key f xs"
proof (induction xs)
  case Nil
  show ?case by simp
next
  case (Cons y ys)
  then have "sort_key f (ys @ [x]) = x # sort_key f ys" and "\<not> f y \<le> f x" by auto
  then show ?case by simp
qed

subsection \<open>Two records of one second\<close>




section \<open>The claims\<close>

text \<open>
  C4. On a connection that enforces foreign keys, \<^verbatim>\<open>logActivity\<close> for an agent id that
  is not in the agents table fails (the insert throws the foreign key error of SQLite, the
  module's report of an unknown agent) and leaves the database as it was, so no activity
  record is inserted. For an agent id that is in the table it appends exactly one activity
  record with the given fields and the current second, sets the \<^verbatim>\<open>updated_at\<close> of that
  agent to the current second, and returns the id of the new record, which no record had
  before.
\<close>

theorem logActivity_unknown_fails_known_inserts:
  assumes "foreign_keys d"
  shows "(\<not> agent_exists agentId d \<longrightarrow>
            logActivity now agentId ty description metadata (Some d) = (Inl foreign_key_failed, Some d))
       \<and> (agent_exists agentId d \<longrightarrow>
            (\<exists>rowid d'. logActivity now agentId ty description metadata (Some d) = (Inr rowid, Some d')
               \<and> activities d' = activities d @
                    [\<lparr>act_id = rowid, act_agent_id = agentId, act_type = ty,
                      act_description = description, act_metadata_json = JSON_stringify metadata,
                      act_timestamp = now\<rparr>]
               \<and> rowid \<notin> set (map act_id (activities d))
               \<and> agents d' = map (\<lambda>ag. if a_id ag = agentId then ag\<lparr>a_updated_at := now\<rparr> else ag)
                                  (agents d)
               \<and> reviews d' = reviews d))"
proof (intro conjI impI)
  assume "\<not> agent_exists agentId d"
  with assms
  show "logActivity now agentId ty description metadata (Some d) = (Inl foreign_key_failed, Some d)"
    by (rule logActivity_unknown)
next
  assume known: "agent_exists agentId d"
  let ?rowid = "next_rowid (seq_activities d) (map act_id (activities d))"
  have "?rowid \<notin> set (map act_id (activities d))" by (rule next_rowid_fresh)
  then show "\<exists>rowid d'. logActivity now agentId ty description metadata (Some d) = (Inr rowid, Some d')
               \<and> activities d' = activities d @
                    [\<lparr>act_id = rowid, act_agent_id = agentId, act_type = ty,
                      act_description = description, act_metadata_json = JSON_stringify metadata,
                      act_timestamp = now\<rparr>]
               \<and> rowid \<notin> set (map act_id (activities d))
               \<and> agents d' = map (\<lambda>ag. if a_id ag = agentId then ag\<lparr>a_updated_at := now\<rparr> else ag)
                                  (agents d)
               \<and> reviews d' = reviews d"
    by (simp add: logActivity_known [OF known])
qed

theorem logActivity_unknown_fails_known_inserts_witness:
  "foreign_keys (seeded 0) \<and> \<not> agent_exists ''ghost'' (seeded 0) \<and> agent_exists ''buppy'' (seeded 0)
   \<and> logActivity 7 ''ghost'' ''command'' ''Ran heartbeat check'' (JObj []) (Some (seeded 0))
       = (Inl foreign_key_failed, Some (seeded 0))
   \<and> fst (logActivity 7 ''buppy'' ''command'' ''Ran heartbeat check'' (JObj []) (Some (seeded 0))) = Inr 4"
proof -
  have fk: "foreign_keys (seeded 0)" by (simp add: seeded_def)
  have four: "next_rowid (seq_activities (seeded 0)) (map act_id (activities (seeded 0))) = 4"
    by (simp add: seeded_def next_rowid_def)
  from logActivity_unknown_fails_known_inserts
         [OF fk, of "''ghost''" 7 "''command''" "''Ran heartbeat check''" "JObj []"]
       logActivity_unknown_fails_known_inserts
         [OF fk, of "''buppy''" 7 "''command''" "''Ran heartbeat check''" "JObj []"]
  show ?thesis
    using fk four seeded_agents_known [of 0]
    by (auto simp: logActivity_known [OF seeded_agents_known(1)])
qed

text \<open>
  C7, as the code has it. For an agent id in the agents table, \<^verbatim>\<open>updateAgentTask\<close> sets
  the \<^verbatim>\<open>current_task\<close> of that agent to the task, its status to \<^verbatim>\<open>active\<close> and its
  \<^verbatim>\<open>updated_at\<close> to the current second, appends exactly one activity record of type
  \<^verbatim>\<open>task_update\<close> whose description is the new task, and returns true. For an agent id
  that is not in the table it throws nothing: it returns false, and the database is as it
  was, so no activity is logged.
\<close>

theorem updateAgentTask_sets_task_and_logs:
  "(agent_exists agentId d \<longrightarrow>
      (\<exists>rowid d'. updateAgentTask now agentId task (Some d) = (Inr True, Some d')
         \<and> agents d' = map (\<lambda>ag. if a_id ag = agentId
                                    then ag\<lparr>a_current_task := Some task, a_status := ''active'',
                                            a_updated_at := now\<rparr>
                                    else ag) (agents d)
         \<and> activities d' = activities d @
              [\<lparr>act_id = rowid, act_agent_id = agentId, act_type = ''task_update'',
                act_description = ''Updated task: '' @ task,
                act_metadata_json = JSON_stringify (JObj [(''task'', JStr task)]),
                act_timestamp = now\<rparr>]
         \<and> rowid \<notin> set (map act_id (activities d))))
   \<and> (\<not> agent_exists agentId d \<longrightarrow> updateAgentTask now agentId task (Some d) = (Inr False, Some d))"
proof (intro conjI impI)
  assume unknown: "\<not> agent_exists agentId d"
  then have "length (filter (\<lambda>ag. a_id ag = agentId) (agents d)) = 0"
    using changes_positive [of agentId "agents d"] by (simp add: agent_exists_def)
  moreover from unknown
  have "map (\<lambda>ag. if a_id ag = agentId
                   then ag\<lparr>a_current_task := Some task, a_status := ''active'', a_updated_at := now\<rparr>
                   else ag) (agents d) = agents d"
    by (intro update_unknown) (simp add: agent_exists_def)
  ultimately show "updateAgentTask now agentId task (Some d) = (Inr False, Some d)"
    by (simp add: updateAgentTask_def UPDATE_agent_task_def)
next
  assume known: "agent_exists agentId d"
  let ?f = "\<lambda>ag. if a_id ag = agentId
                  then ag\<lparr>a_current_task := Some task, a_status := ''active'', a_updated_at := now\<rparr>
                  else ag"
  let ?d1 = "d\<lparr>agents := map ?f (agents d)\<rparr>"
  let ?rowid = "next_rowid (seq_activities d) (map act_id (activities d))"
  have changes: "0 < length (filter (\<lambda>ag. a_id ag = agentId) (agents d))"
    using known changes_positive [of agentId "agents d"] by (simp add: agent_exists_def)
  have "map a_id (map ?f (agents d)) = map a_id (agents d)"
    by (rule update_keeps_ids) simp
  then have known1: "agent_exists agentId ?d1"
    using known by (simp add: agent_exists_def del: map_map)
  have twice: "map (\<lambda>ag. if a_id ag = agentId then ag\<lparr>a_updated_at := now\<rparr> else ag)
                   (map ?f (agents d)) = map ?f (agents d)"
    by (induction "agents d") auto
  have fresh: "?rowid \<notin> set (map act_id (activities d))" by (rule next_rowid_fresh)
  have "updateAgentTask now agentId task (Some d) =
          (Inr True, snd (logActivity now agentId ''task_update'' (''Updated task: '' @ task)
                           (JObj [(''task'', JStr task)]) (Some ?d1)))"
    using changes
    by (simp add: updateAgentTask_def UPDATE_agent_task_def logActivity_known [OF known1])
  then show "\<exists>rowid d'. updateAgentTask now agentId task (Some d) = (Inr True, Some d')
         \<and> agents d' = map ?f (agents d)
         \<and> activities d' = activities d @
              [\<lparr>act_id = rowid, act_agent_id = agentId, act_type = ''task_update'',
                act_description = ''Updated task: '' @ task,
                act_metadata_json = JSON_stringify (JObj [(''task'', JStr task)]),
                act_timestamp = now\<rparr>]
         \<and> rowid \<notin> set (map act_id (activities d))"
    using fresh twice
    by (simp add: logActivity_known [OF known1] del: JSON_stringify.simps map_map)
qed

theorem updateAgentTask_sets_task_and_logs_witness:
  "agent_exists ''zoomie'' (seeded 0) \<and> \<not> agent_exists ''ghost'' (seeded 0)
   \<and> fst (updateAgentTask 9 ''zoomie'' ''Ship the beta'' (Some (seeded 0))) = Inr True
   \<and> updateAgentTask 9 ''ghost'' ''Ship the beta'' (Some (seeded 0)) = (Inr False, Some (seeded 0))"
  using updateAgentTask_sets_task_and_logs [of "''zoomie''" "seeded 0" 9 "''Ship the beta''"]
        updateAgentTask_sets_task_and_logs [of "''ghost''" "seeded 0" 9 "''Ship the beta''"]
        seeded_agents_known [of 0]
  by auto

text \<open>
  C7 as stated says that the call fails with an error for an unknown agent. On the seeded
  database the call for the unknown id \<^verbatim>\<open>ghost\<close> returns false; nothing is thrown.
\<close>

theorem updateAgentTask_unknown_counterexample:
  "fst (updateAgentTask 9 ''ghost'' ''Ship the beta'' (Some (seeded 0))) = Inr False"
  by (simp add: updateAgentTask_def UPDATE_agent_task_def seeded_def)


subsection \<open>Starting again\<close>

lemma initDb_has_agents:
  "agents d \<noteq> [] \<Longrightarrow> initDb now (Some d) = (Inr (), Some (d\<lparr>foreign_keys := True\<rparr>))"
  by (simp add: initDb_def new_Database_def seedInitialAgents_def)

lemma initDb_no_agents:
  assumes "agents d = []"
  shows "\<exists>d'. initDb now (Some d) = (Inr (), Some d')
            \<and> map a_id (agents d') = [''buppy'', ''zoomie'', ''mechly'']
            \<and> length (reviews d') = length (reviews d) + 3
            \<and> foreign_keys d'"
  using assms
  by (simp add: initDb_def new_Database_def seedInitialAgents_def seed_agents_def
      INSERT_agent_def agent_exists_def logActivity_def INSERT_activity_def fk_violation_def
      UPDATE_agent_updated_at_def seedSampleReviews_def sample_reviews_def
      INSERT_review_def Let_def)

lemma initDb_total:
  "\<exists>d'. initDb now file = (Inr (), Some d') \<and> agents d' \<noteq> [] \<and> foreign_keys d'"
proof (cases "file")
  case None
  then show ?thesis by (simp add: initDb_fresh seeded_def)
next
  case (Some d)
  show ?thesis
  proof (cases "agents d = []")
    case True
    from initDb_no_agents [OF True, of now] obtain d' where
      "initDb now (Some d) = (Inr (), Some d')" "map a_id (agents d') = [''buppy'', ''zoomie'', ''mechly'']"
      "foreign_keys d'" by auto
    then show ?thesis using Some by auto
  next
    case False
    then show ?thesis using Some by (simp add: initDb_has_agents)
  qed
qed

lemma initDb_again:
  "initDb later (snd (initDb now file)) = (Inr (), snd (initDb now file))"
proof -
  from initDb_total [of now "file"] obtain d' where
    d': "initDb now file = (Inr (), Some d')" "agents d' \<noteq> []" "foreign_keys d'" by blast
  then have "d'\<lparr>foreign_keys := True\<rparr> = d'" by simp
  then show ?thesis using d' by (simp add: initDb_has_agents)
qed

lemma initDb_times_after_first:
  "initDb_times later (snd (initDb now file)) = snd (initDb now file)"
  by (induction later) (simp_all add: initDb_again)

text \<open>
  C10. Seeding happens only when the agents table is empty. On a machine without a
  database file \<^verbatim>\<open>initDb\<close> leaves exactly the three seed agents and the three sample
  reviews; \<^verbatim>\<open>initDb\<close> on a database whose agents table has a row inserts nothing; so a
  further \<^verbatim>\<open>initDb\<close> on what any \<^verbatim>\<open>initDb\<close> left changes nothing, and any number of
  calls, one after the other on the same file, leave what the first one left.
\<close>

theorem initDb_seeds_once:
  "initDb now None = (Inr (), Some (seeded now))
   \<and> map a_id (agents (seeded now)) = [''buppy'', ''zoomie'', ''mechly'']
   \<and> map r_id (reviews (seeded now)) = [1, 2, 3]
   \<and> (agents d \<noteq> [] \<longrightarrow> initDb now (Some d) = (Inr (), Some (d\<lparr>foreign_keys := True\<rparr>)))
   \<and> initDb later (snd (initDb now file)) = (Inr (), snd (initDb now file))
   \<and> initDb_times (now # ts) file = snd (initDb now file)
   \<and> initDb_times (now # ts) None = Some (seeded now)"
proof -
  have ids: "map a_id (agents (seeded now)) = [''buppy'', ''zoomie'', ''mechly'']"
    and revs: "map r_id (reviews (seeded now)) = [1, 2, 3]"
    by (simp_all add: seeded_def)
  have times: "initDb_times (now # ts) f = snd (initDb now f)" for f
    by (simp add: initDb_times_after_first)
  have "initDb_times (now # ts) None = Some (seeded now)"
    by (simp only: times initDb_fresh snd_conv)
  moreover have "agents d \<noteq> [] \<longrightarrow> initDb now (Some d) = (Inr (), Some (d\<lparr>foreign_keys := True\<rparr>))"
    using initDb_has_agents [of d now] by blast
  ultimately show ?thesis
    using ids revs times [of "file"] initDb_again [of later now "file"] initDb_fresh [of now]
    by (intro conjI)
qed

theorem initDb_seeds_once_witness:
  "agents (seeded 0) \<noteq> []
   \<and> initDb 60 (Some (seeded 0)) = (Inr (), Some (seeded 0))
   \<and> initDb_times [0, 60, 120] None = Some (seeded 0)"
proof -
  have a: "agents (seeded 0) \<noteq> []" and b: "(seeded 0)\<lparr>foreign_keys := True\<rparr> = seeded 0"
    by (simp_all add: seeded_def)
  have "initDb 60 (Some (seeded 0)) = (Inr (), Some ((seeded 0)\<lparr>foreign_keys := True\<rparr>))"
    using initDb_seeds_once [of 60 "seeded 0" 0 None "[]"] a by blast
  moreover have "initDb_times [0, 60, 120] None = Some (seeded 0)"
    using initDb_seeds_once [of 0 "seeded 0" 60 None "[60, 120]"] by blast
  ultimately show ?thesis using a b by (simp only: simp_thms)
qed



subsection \<open>The order of the activity reads\<close>




end
